theory Spec2Isabelle
  imports Main "HOL-Library.Sublist"
begin

section \<open>Strings: the part of \<open>String.prototype.replace\<close> that \<open>route.ts\<close> uses\<close>

text \<open>
  A JavaScript string is a sequence of code units; it is modelled as a \<open>string\<close>.
  \<open>route.ts\<close> calls \<open>content.replace(rule.original, rule.substitution)\<close> with a string
  pattern. For a string pattern the language replaces the first occurrence only, and
  expands the replacement text: \<open>$$\<close> is a dollar sign, \<open>$&\<close> the matched text,
  \<open>$`\<close> the text before the match, \<open>$'\<close> the text after it. A string pattern has
  no capture groups, so \<open>$1\<close> and \<open>$<name>\<close> stay as they are written.
\<close>

primrec startsWith :: "string \<Rightarrow> string \<Rightarrow> bool" where
  "startsWith [] p = (p = [])"
| "startsWith (c # s) p = (case p of [] \<Rightarrow> True | d # q \<Rightarrow> c = d \<and> startsWith s q)"

primrec indexOf :: "string \<Rightarrow> string \<Rightarrow> nat option" where
  "indexOf [] p = (if p = [] then Some 0 else None)"
| "indexOf (c # s) p =
     (if startsWith (c # s) p then Some 0 else map_option Suc (indexOf s p))"

definition str_includes :: "string \<Rightarrow> string \<Rightarrow> bool" where
  "str_includes s p = (indexOf s p \<noteq> None)"

fun getSubstitution :: "string \<Rightarrow> string \<Rightarrow> string \<Rightarrow> string \<Rightarrow> string" where
  "getSubstitution matched preceding following [] = []"
| "getSubstitution matched preceding following [c] = [c]"
| "getSubstitution matched preceding following (c # d # r) =
     (if c = CHR ''$'' then
        (if d = CHR ''$'' then CHR ''$'' # getSubstitution matched preceding following r
         else if d = CHR ''&'' then matched @ getSubstitution matched preceding following r
         else if d = CHR 0x60 then preceding @ getSubstitution matched preceding following r
         else if d = CHR 0x27 then following @ getSubstitution matched preceding following r
         else c # getSubstitution matched preceding following (d # r))
      else c # getSubstitution matched preceding following (d # r))"

definition replace :: "string \<Rightarrow> string \<Rightarrow> string \<Rightarrow> string" where
  "replace s pattern replacement =
     (case indexOf s pattern of
        None \<Rightarrow> s
      | Some i \<Rightarrow>
          take i s
          @ getSubstitution pattern (take i s) (drop (i + length pattern) s) replacement
          @ drop (i + length pattern) s)"

section \<open>Data model\<close>

text \<open>
  A message as \<open>route.ts\<close> builds it, and a triggered rule as it reads it: \<open>original\<close>
  and \<open>substitution\<close> are strings, with the reference to the rule and the id of the
  message that triggered it.
\<close>

record message =
  role :: string
  content :: string

record triggered_rule =
  original :: string
  substitution :: string
  rule_ref :: nat
  message_id :: nat

section \<open>The rewrite of the history (\<open>newMessages\<close>)\<close>

text \<open>
  \<open>triggeredRules.forEach(rule => newMessage.content = newMessage.content.replace(...))\<close>
  on a copy of each message: a left fold over the triggered rules, in their order.
\<close>

definition rewriteContent :: "triggered_rule list \<Rightarrow> string \<Rightarrow> string" where
  "rewriteContent triggeredRules c =
     foldl (\<lambda>acc rule. replace acc (original rule) (substitution rule)) c triggeredRules"

definition newMessages :: "message list \<Rightarrow> triggered_rule list \<Rightarrow> message list" where
  "newMessages messages triggeredRules =
     map (\<lambda>m. \<lparr>role = role m, content = rewriteContent triggeredRules (content m)\<rparr>) messages"

section \<open>The collaborators of \<open>POST\<close>\<close>

datatype error = TypeError | ZodError | ConfigurationError | Rejected string

record persona_row =
  attributes :: "(string \<times> int) list option"

record persona_response =
  personaData :: "persona_row option"
  personaError :: "string option"

record categorization =
  category :: string
  complexity :: string
  topics :: "string list"

record block_rule =
  rule_id :: nat
  rule_company_id :: string
  matcher :: string
  rule_substitution :: string

datatype raw_rule = Malformed | WellFormed block_rule

datatype message_type = USER | BOT

record chat_message =
  row_chat_block_id :: string
  row_content :: string
  row_user_id :: "string option"
  row_type :: message_type
  row_content_type :: string
  row_category :: string
  row_created_at :: string
  row_updated_at :: string

record chain_values =
  res_text :: string

datatype client = supabase | supabaseAdmin

record request =
  rawMessages :: "message list"
  company_id :: string
  user_id :: string
  chat_block_id :: string

datatype log_data =
    CHAT_MESSAGE_CREATED string categorization
  | CHAT_MESSAGE_BLOCK_RULE_TRIGGERED string "triggered_rule list"

text \<open>
  Every call that leaves the handler is an oracle of the environment, a function of the
  call's arguments: the persona query, the classifier, the rule query, the insert into
  \<open>chat_message\<close> (it returns the generated id), the completion chain (\<open>None\<close> is a
  falsy result) and the clock.
\<close>

record env =
  fetchPersona :: "string \<Rightarrow> persona_response"
  personaFragment :: "(string \<times> int) list \<Rightarrow> string"
  categorizePrompt :: "string \<Rightarrow> error + categorization"
  fetchRules :: "string \<Rightarrow> string + raw_rule list"
  insertChatMessage :: "client \<Rightarrow> chat_message \<Rightarrow> string + nat"
  chainCall :: "string \<Rightarrow> string \<Rightarrow> string \<Rightarrow> error + chain_values option"
  now :: string

text \<open>
  What a turn does to the world: the rows of \<open>chat_message\<close>, and the trace of the
  handler's steps, each with its arguments and its result.
\<close>

datatype event =
    PersonaQuery string persona_response
  | ConsoleError string
  | ConsoleLog string
  | ClassifierCall string "error + categorization"
  | ApiLoggerCall log_data string string
  | RulesQuery string "string + raw_rule list"
  | InsertCall client chat_message "string + nat"
  | EvaluateCall message string string nat "block_rule list" "triggered_rule list"
  | Rewrite "message list"
  | ChainCall string string string "error + chain_values option"

record world =
  store :: "(nat \<times> chat_message) list"
  trace :: "event list"

datatype response = Threw error | ReturnedNull | ReturnedUndefined | Json "chain_values option"

definition emit :: "event \<Rightarrow> world \<Rightarrow> world" where
  "emit e w = w\<lparr>trace := trace w @ [e]\<rparr>"

definition insertRow :: "env \<Rightarrow> client \<Rightarrow> chat_message \<Rightarrow> world \<Rightarrow> (string + nat) \<times> world" where
  "insertRow e c row w =
     (let r = insertChatMessage e c row;
          w = emit (InsertCall c row r) w
      in case r of
           Inl err \<Rightarrow> (r, w)
         | Inr i \<Rightarrow> (r, w\<lparr>store := store w @ [(i, row)]\<rparr>))"

section \<open>Helpers of the repository that \<open>route.ts\<close> imports\<close>

text \<open>
  Modelled from the spec: \<open>createPersonaPrompt\<close> (\<open>@/utils/personaAttributes\<close>) is
  missing. The spec: a deterministic function of the attribute levels, which fails with a
  ConfigurationError if the attribute set is empty or a level is outside 0, 1, 2. The
  text of the fragment is not specified; it is the environment's \<open>personaFragment\<close>.
\<close>

definition createPersonaPrompt ::
  "((string \<times> int) list \<Rightarrow> string) \<Rightarrow> (string \<times> int) list \<Rightarrow> error + string" where
  "createPersonaPrompt fragment attributesInput =
     (if attributesInput = [] \<or> list_ex (\<lambda>kv. snd kv < 0 \<or> 2 < snd kv) attributesInput
      then Inl ConfigurationError
      else Inr (fragment attributesInput))"

text \<open>
  Modelled from the spec: \<open>BlockRuleSchema\<close> (\<open>@/types/schemas\<close>) is missing. The spec:
  each fetched rule is validated against a fixed schema before use, and a violation is
  fatal. \<open>parse\<close> throws on a row that violates the schema; \<open>rulesData.map\<close> stops at
  the first throw.
\<close>

fun parse :: "raw_rule \<Rightarrow> error + block_rule" where
  "parse Malformed = Inl ZodError"
| "parse (WellFormed r) = Inr r"

fun parseRules :: "raw_rule list \<Rightarrow> error + block_rule list" where
  "parseRules [] = Inr []"
| "parseRules (r # rs) =
     (case parse r of
        Inl e \<Rightarrow> Inl e
      | Inr b \<Rightarrow> (case parseRules rs of Inl e \<Rightarrow> Inl e | Inr bs \<Rightarrow> Inr (b # bs)))"

text \<open>
  Modelled from the spec: \<open>evaluateMessageAgainstRules\<close> (\<open>@/utils/ruleHelpers\<close>) is
  missing. The spec: iterate the rules in input order; for each rule whose matcher occurs
  in the message content, append a triggered rule with the rule's original and
  substitution and the message id; all rules are tested against the original content.
\<close>

definition evaluateMessageAgainstRules ::
  "message \<Rightarrow> string \<Rightarrow> string \<Rightarrow> nat \<Rightarrow> block_rule list \<Rightarrow> triggered_rule list" where
  "evaluateMessageAgainstRules m cid uid mid rules =
     map (\<lambda>r. \<lparr>original = matcher r, substitution = rule_substitution r,
               rule_ref = rule_id r, message_id = mid\<rparr>)
         (filter (\<lambda>r. str_includes (content m) (matcher r)) rules)"

section \<open>\<open>POST\<close>\<close>

definition formatMessage :: "message \<Rightarrow> string" where
  "formatMessage m = role m @ '': '' @ content m"

fun join :: "string list \<Rightarrow> string \<Rightarrow> string" where
  "join [] sep = []"
| "join [x] sep = x"
| "join (x # y # xs) sep = x @ sep @ join (y # xs) sep"

definition nl :: string where
  "nl = [CHR 0x0A]"

definition TEMPLATE :: "string \<Rightarrow> string" where
  "TEMPLATE generatedPrompt =
     generatedPrompt @ nl @ '' '' @ nl @ ''  Current conversation:'' @ nl
     @ ''  {chat_history}'' @ nl @ ''  '' @ nl @ ''  User: {input}'' @ nl @ ''  AI:''"

text \<open>
  Lines 152 to 200: the rewrite, the completion call, the outbound insert and the
  response. The completion call takes \<open>formattedPreviousMessages\<close> and
  \<open>currentMessageContent\<close>, both computed from \<open>rawMessages\<close> at lines 68 and 69.
\<close>

definition complete ::
  "env \<Rightarrow> request \<Rightarrow> string \<Rightarrow> categorization \<Rightarrow> message list \<Rightarrow> triggered_rule list
    \<Rightarrow> world \<Rightarrow> response \<times> world" where
  "complete e req generatedPrompt categorization messages triggeredRules w =
     (let formattedPreviousMessages = map formatMessage (butlast (rawMessages req));
          currentMessageContent = content (last (rawMessages req));
          w = emit (Rewrite (newMessages messages triggeredRules)) w;
          res = chainCall e (TEMPLATE generatedPrompt)
                  (join formattedPreviousMessages nl) currentMessageContent;
          w = emit (ChainCall (TEMPLATE generatedPrompt)
                  (join formattedPreviousMessages nl) currentMessageContent res) w
      in case res of
           Inl err \<Rightarrow> (Threw err, w)
         | Inr None \<Rightarrow> (Json None, w)
         | Inr (Some resB) \<Rightarrow>
             (case insertRow e supabase
                     \<lparr>row_chat_block_id = chat_block_id req, row_content = res_text resB,
                      row_user_id = None, row_type = BOT, row_content_type = ''TEXT'',
                      row_category = category categorization,
                      row_created_at = now e, row_updated_at = now e\<rparr> w of
                (Inl err, w) \<Rightarrow> (ReturnedUndefined, emit (ConsoleError err) w)
              | (Inr i, w) \<Rightarrow> (Json (Some resB), w)))"

text \<open>
  Lines 94 to 150: the rule query, the inbound insert, the validation of the rules and
  their evaluation against the last message.
\<close>

definition screen ::
  "env \<Rightarrow> request \<Rightarrow> string \<Rightarrow> categorization \<Rightarrow> message list \<Rightarrow> world \<Rightarrow> response \<times> world" where
  "screen e req generatedPrompt categorization messages w =
     (let rr = fetchRules e (company_id req);
          w = emit (RulesQuery (company_id req) rr) w
      in case rr of
           Inl rulesDataError \<Rightarrow> (ReturnedNull, emit (ConsoleError rulesDataError) w)
         | Inr rulesData \<Rightarrow>
             (case insertRow e supabaseAdmin
                     \<lparr>row_chat_block_id = chat_block_id req,
                      row_content = content (last messages),
                      row_user_id = Some (user_id req), row_type = USER,
                      row_content_type = ''TEXT'',
                      row_category = category categorization,
                      row_created_at = now e, row_updated_at = now e\<rparr> w of
                (Inl messageInsertError, w) \<Rightarrow>
                  (ReturnedNull, emit (ConsoleError messageInsertError) w)
              | (Inr messageInsertId, w) \<Rightarrow>
                  (let w = emit (ConsoleLog ''messageInsert'') w
                   in case parseRules rulesData of
                        Inl err \<Rightarrow> (Threw err, w)
                      | Inr parsedRules \<Rightarrow>
                          (let triggeredRules =
                                 evaluateMessageAgainstRules (last messages) (company_id req)
                                   (user_id req) messageInsertId parsedRules;
                               w = emit (EvaluateCall (last messages) (company_id req)
                                   (user_id req) messageInsertId parsedRules triggeredRules) w;
                               w = (if 0 < length triggeredRules
                                    then emit (ApiLoggerCall
                                           (CHAT_MESSAGE_BLOCK_RULE_TRIGGERED
                                              (content (last messages)) triggeredRules)
                                           (company_id req) (user_id req)) w
                                    else w)
                           in complete e req generatedPrompt categorization messages
                                triggeredRules w))))"

text \<open>
  Lines 24 to 92. The messages of a request carry a role and a content, so the copy at
  line 28 keeps them as they are. A missing persona is logged and the handler goes on:
  \<open>Object.entries\<close> of \<open>undefined\<close> then throws a TypeError. With no message at all,
  \<open>rawMessages[rawMessages.length - 1].content\<close> throws a TypeError at line 69.
  A rejected \<open>categorizePrompt\<close> is not caught. The constructors of lines 71 to 77
  (\<open>PromptTemplate.fromTemplate\<close>, \<open>new ChatOpenAI\<close>, \<open>new BytesOutputParser\<close>) call
  nothing outside the handler and are taken to succeed; \<open>apiLogger\<close> is not awaited and
  only leaves its event.
\<close>

definition POST :: "env \<Rightarrow> request \<Rightarrow> world \<Rightarrow> response \<times> world" where
  "POST e req w =
     (let messages = map (\<lambda>m. \<lparr>role = role m, content = content m\<rparr>) (rawMessages req);
          pr = fetchPersona e (chat_block_id req);
          w = emit (PersonaQuery (chat_block_id req) pr) w;
          w = (if personaError pr \<noteq> None \<or> personaData pr = None
               then emit (ConsoleError (case personaError pr of None \<Rightarrow> ''null'' | Some err \<Rightarrow> err)) w
               else w);
          w = emit (ConsoleLog '' personaData '') w
      in case Option.bind (personaData pr) attributes of
           None \<Rightarrow> (Threw TypeError, w)
         | Some attributesInput \<Rightarrow>
             (case createPersonaPrompt (personaFragment e) attributesInput of
                Inl err \<Rightarrow> (Threw err, w)
              | Inr generatedPrompt \<Rightarrow>
                  if rawMessages req = [] then (Threw TypeError, w)
                  else
                    (let cr = categorizePrompt e (content (last messages));
                         w = emit (ClassifierCall (content (last messages)) cr) w
                     in case cr of
                          Inl err \<Rightarrow> (Threw err, w)
                        | Inr categorization \<Rightarrow>
                            screen e req generatedPrompt categorization messages
                              (emit (ApiLoggerCall
                                       (CHAT_MESSAGE_CREATED (content (last messages))
                                          categorization)
                                       (company_id req) (user_id req)) w))))"

text \<open>One turn: the handler run on the rows already stored, with an empty trace.\<close>

definition turn :: "env \<Rightarrow> request \<Rightarrow> (nat \<times> chat_message) list \<Rightarrow> response \<times> world" where
  "turn e req st = POST e req \<lparr>store = st, trace = []\<rparr>"

definition outcome :: "env \<Rightarrow> request \<Rightarrow> (nat \<times> chat_message) list \<Rightarrow> response" where
  "outcome e req st = fst (turn e req st)"

definition events :: "env \<Rightarrow> request \<Rightarrow> (nat \<times> chat_message) list \<Rightarrow> event list" where
  "events e req st = trace (snd (turn e req st))"

definition finalStore :: "env \<Rightarrow> request \<Rightarrow> (nat \<times> chat_message) list \<Rightarrow> (nat \<times> chat_message) list" where
  "finalStore e req st = store (snd (turn e req st))"

section \<open>Reading a trace\<close>

text \<open>The states of the spec's pipeline; a step that succeeded reaches its state.\<close>

datatype stage =
    Classified | InboundPersisted | RulesFetched | RulesEvaluated | HistoryRewritten
  | CompletionInvoked | OutboundPersisted

fun stageOf :: "event \<Rightarrow> stage list" where
  "stageOf (ClassifierCall t (Inr c)) = [Classified]"
| "stageOf (RulesQuery c (Inr rs)) = [RulesFetched]"
| "stageOf (InsertCall c row (Inr i)) =
     (case row_type row of USER \<Rightarrow> [InboundPersisted] | BOT \<Rightarrow> [OutboundPersisted])"
| "stageOf (EvaluateCall m c u i rs ts) = [RulesEvaluated]"
| "stageOf (Rewrite ms) = [HistoryRewritten]"
| "stageOf (ChainCall t h i (Inr r)) = [CompletionInvoked]"
| "stageOf ev = []"

definition stages :: "event list \<Rightarrow> stage list" where
  "stages tr = concat (map stageOf tr)"

text \<open>The order of the states as the spec lists it, and as \<open>route.ts\<close> runs them.\<close>

definition specOrder :: "stage list" where
  "specOrder = [Classified, InboundPersisted, RulesFetched, RulesEvaluated,
                HistoryRewritten, CompletionInvoked, OutboundPersisted]"

definition codeOrder :: "stage list" where
  "codeOrder = [Classified, RulesFetched, InboundPersisted, RulesEvaluated,
                HistoryRewritten, CompletionInvoked, OutboundPersisted]"

text \<open>Projections of a trace: the arguments and results of the calls of one kind.\<close>

fun chainInput :: "event \<Rightarrow> (string \<times> string) list" where
  "chainInput (ChainCall t h i r) = [(h, i)]"
| "chainInput ev = []"

definition chainInputs :: "event list \<Rightarrow> (string \<times> string) list" where
  "chainInputs tr = concat (map chainInput tr)"

fun chainResult :: "event \<Rightarrow> (error + chain_values option) list" where
  "chainResult (ChainCall t h i r) = [r]"
| "chainResult ev = []"

definition chainResults :: "event list \<Rightarrow> (error + chain_values option) list" where
  "chainResults tr = concat (map chainResult tr)"

fun rewritten :: "event \<Rightarrow> message list list" where
  "rewritten (Rewrite ms) = [ms]"
| "rewritten ev = []"

definition rewrittenHistories :: "event list \<Rightarrow> message list list" where
  "rewrittenHistories tr = concat (map rewritten tr)"

fun triggered :: "event \<Rightarrow> triggered_rule list list" where
  "triggered (EvaluateCall m c u i rs ts) = [ts]"
| "triggered ev = []"

definition triggeredLists :: "event list \<Rightarrow> triggered_rule list list" where
  "triggeredLists tr = concat (map triggered tr)"

fun evaluatedId :: "event \<Rightarrow> nat list" where
  "evaluatedId (EvaluateCall m c u i rs ts) = [i]"
| "evaluatedId ev = []"

definition evaluatedIds :: "event list \<Rightarrow> nat list" where
  "evaluatedIds tr = concat (map evaluatedId tr)"

fun inboundId :: "event \<Rightarrow> nat list" where
  "inboundId (InsertCall c row (Inr i)) = (case row_type row of USER \<Rightarrow> [i] | BOT \<Rightarrow> [])"
| "inboundId ev = []"

definition inboundIds :: "event list \<Rightarrow> nat list" where
  "inboundIds tr = concat (map inboundId tr)"

fun classifierArg :: "event \<Rightarrow> string list" where
  "classifierArg (ClassifierCall t r) = [t]"
| "classifierArg ev = []"

definition classifierArgs :: "event list \<Rightarrow> string list" where
  "classifierArgs tr = concat (map classifierArg tr)"

fun classifierFailure :: "event \<Rightarrow> error list" where
  "classifierFailure (ClassifierCall t (Inl err)) = [err]"
| "classifierFailure ev = []"

definition classifierFailures :: "event list \<Rightarrow> error list" where
  "classifierFailures tr = concat (map classifierFailure tr)"

fun insertAttempt :: "event \<Rightarrow> (chat_message \<times> (string + nat)) list" where
  "insertAttempt (InsertCall c row r) = [(row, r)]"
| "insertAttempt ev = []"

definition insertAttempts :: "event list \<Rightarrow> (chat_message \<times> (string + nat)) list" where
  "insertAttempts tr = concat (map insertAttempt tr)"

fun consoleError :: "event \<Rightarrow> string list" where
  "consoleError (ConsoleError msg) = [msg]"
| "consoleError ev = []"

definition consoleErrors :: "event list \<Rightarrow> string list" where
  "consoleErrors tr = concat (map consoleError tr)"

text \<open>The rows a turn added to the store.\<close>

definition addedRows :: "env \<Rightarrow> request \<Rightarrow> (nat \<times> chat_message) list \<Rightarrow> (nat \<times> chat_message) list" where
  "addedRows e req st = drop (length st) (finalStore e req st)"

text \<open>The persona attributes a turn reads, \<open>personaData?.persona?.attributes\<close>.\<close>

definition personaAttributes :: "env \<Rightarrow> request \<Rightarrow> (string \<times> int) list option" where
  "personaAttributes e req =
     Option.bind (personaData (fetchPersona e (chat_block_id req))) attributes"

section \<open>Concrete turns\<close>

text \<open>
  Scenario A of the spec: one rule from \<open>secret123\<close> to \<open>[REDACTED]\<close>, every
  collaborator succeeds.
\<close>

definition envA :: env where
  "envA =
     \<lparr>fetchPersona =
        (\<lambda>b. \<lparr>personaData = Some \<lparr>attributes = Some [(''warmth'', 1)]\<rparr>,
               personaError = None\<rparr>),
      personaFragment = (\<lambda>a. ''Be kind.''),
      categorizePrompt =
        (\<lambda>t. Inr \<lparr>category = ''security'', complexity = ''low'', topics = []\<rparr>),
      fetchRules =
        (\<lambda>c. Inr [WellFormed \<lparr>rule_id = 7, rule_company_id = ''acme'',
                                matcher = ''secret123'',
                                rule_substitution = ''[REDACTED]''\<rparr>]),
      insertChatMessage = (\<lambda>c row. Inr (case row_type row of USER \<Rightarrow> 41 | BOT \<Rightarrow> 42)),
      chainCall = (\<lambda>t h i. Inr (Some \<lparr>res_text = ''ok''\<rparr>)),
      now = ''2024-01-01T00:00:00.000Z''\<rparr>"

definition reqA :: request where
  "reqA =
     \<lparr>rawMessages = [\<lparr>role = ''user'', content = ''my password is secret123''\<rparr>],
      company_id = ''acme'', user_id = ''u1'', chat_block_id = ''b1''\<rparr>"

text \<open>The blocked text twice in the inbound message, and once in an earlier turn.\<close>

definition reqTwice :: request where
  "reqTwice =
     \<lparr>rawMessages =
        [\<lparr>role = ''user'', content = ''is secret123 safe?''\<rparr>,
         \<lparr>role = ''assistant'', content = ''no''\<rparr>,
         \<lparr>role = ''user'', content = ''secret123 and again secret123''\<rparr>],
      company_id = ''acme'', user_id = ''u1'', chat_block_id = ''b1''\<rparr>"

text \<open>Scenario C: the classifier is down. Scenario D: the insert of the reply fails.\<close>

definition envC :: env where
  "envC = envA\<lparr>categorizePrompt := (\<lambda>t. Inl (Rejected ''classifier down''))\<rparr>"

definition envD :: env where
  "envD = envA\<lparr>insertChatMessage :=
            (\<lambda>c row. case row_type row of USER \<Rightarrow> Inr 41 | BOT \<Rightarrow> Inl ''insert failed'')\<rparr>"

text \<open>No persona for the conversation; a company with no rule.\<close>

definition envNoPersona :: env where
  "envNoPersona = envA\<lparr>fetchPersona :=
            (\<lambda>b. \<lparr>personaData = None, personaError = Some ''no rows''\<rparr>)\<rparr>"

definition envBadLevel :: env where
  "envBadLevel = envA\<lparr>fetchPersona :=
            (\<lambda>b. \<lparr>personaData = Some \<lparr>attributes = Some [(''warmth'', 3)]\<rparr>,
                   personaError = None\<rparr>)\<rparr>"

definition envNoRules :: env where
  "envNoRules = envA\<lparr>fetchRules := (\<lambda>c. Inr [])\<rparr>"

text \<open>A rule whose substitution contains its original.\<close>

definition growingRule :: triggered_rule where
  "growingRule = \<lparr>original = ''secret'', substitution = ''[secret removed]'',
                  rule_ref = 1, message_id = 41\<rparr>"

definition redactRule :: triggered_rule where
  "redactRule = \<lparr>original = ''secret123'', substitution = ''[REDACTED]'',
                 rule_ref = 7, message_id = 41\<rparr>"

text \<open>The rows of scenario A: the inbound message and the reply.\<close>

definition inboundRowA :: chat_message where
  "inboundRowA =
     \<lparr>row_chat_block_id = ''b1'', row_content = ''my password is secret123'',
      row_user_id = Some ''u1'', row_type = USER, row_content_type = ''TEXT'',
      row_category = ''security'', row_created_at = ''2024-01-01T00:00:00.000Z'',
      row_updated_at = ''2024-01-01T00:00:00.000Z''\<rparr>"

definition replyRowA :: chat_message where
  "replyRowA =
     \<lparr>row_chat_block_id = ''b1'', row_content = ''ok'',
      row_user_id = None, row_type = BOT, row_content_type = ''TEXT'',
      row_category = ''security'', row_created_at = ''2024-01-01T00:00:00.000Z'',
      row_updated_at = ''2024-01-01T00:00:00.000Z''\<rparr>"

section \<open>Facts about the string functions\<close>

lemma startsWith_prefix: "startsWith s p = prefix p s"
  by (induction s arbitrary: p) (auto split: list.splits)

lemma indexOf_None_iff: "indexOf s p = None \<longleftrightarrow> \<not> sublist p s"
proof (induction s)
  case Nil
  then show ?case by simp
next
  case (Cons c s)
  have sw: "startsWith (c # s) p = prefix p (c # s)"
    by (rule startsWith_prefix)
  have sl: "sublist p (c # s) \<longleftrightarrow> prefix p (c # s) \<or> sublist p s"
    by (rule sublist_Cons_right)
  have "indexOf (c # s) p = None \<longleftrightarrow> \<not> startsWith (c # s) p \<and> indexOf s p = None"
    by (simp del: startsWith.simps)
  with sw sl Cons show ?case by (simp del: startsWith.simps indexOf.simps)
qed

lemma includes_sublist: "str_includes s p \<longleftrightarrow> sublist p s"
  by (simp add: str_includes_def indexOf_None_iff)

lemma replace_absent: "\<not> str_includes s p \<Longrightarrow> replace s p r = s"
  by (simp add: str_includes_def replace_def)


section \<open>Facts about the rewrite\<close>

lemma rewriteContent_absent:
  "\<forall>r \<in> set trs. \<not> str_includes c (original r) \<Longrightarrow> rewriteContent trs c = c"
  by (induction trs) (simp_all add: rewriteContent_def replace_absent)

lemma newMessages_absent:
  "\<forall>m \<in> set h. \<forall>r \<in> set trs. \<not> str_includes (content m) (original r)
    \<Longrightarrow> newMessages h trs = h"
  by (simp add: newMessages_def rewriteContent_absent map_idI)

lemma newMessages_no_rules: "newMessages ms [] = ms"
  by (simp add: newMessages_def rewriteContent_def map_idI)

lemma evaluate_no_rules: "evaluateMessageAgainstRules m cid uid mid [] = []"
  by (simp add: evaluateMessageAgainstRules_def)

lemma bad_level:
  "(\<exists>kv \<in> set a. snd kv \<notin> {0, 1, 2})
    = list_ex (\<lambda>kv. snd kv < 0 \<or> 2 < snd kv) (a :: (string \<times> int) list)"
  unfolding list_ex_iff by (intro bex_cong refl) auto

section \<open>The paths of a turn\<close>

text \<open>
  A turn takes exactly one of eleven paths, decided by what the collaborators answer.
  Each case gives the response, the final store and the whole trace.
\<close>

lemmas run_defs = turn_def POST_def screen_def complete_def insertRow_def emit_def Let_def

lemma copy_messages [simp]: "map (\<lambda>m. \<lparr>role = role m, content = content m\<rparr>) ms = ms"
  by (induction ms) simp_all

lemma turn_cases [case_names noAttributes promptFails noMessages classifierFails rulesQueryFails
    inboundInsertFails ruleMalformed chainFails chainFalsy outboundInsertFails replied]:
  fixes e :: env and req :: request and st :: "(nat \<times> chat_message) list"
  defines "c \<equiv> content (last (rawMessages req))"
      and "cid \<equiv> company_id req"
      and "uid \<equiv> user_id req"
      and "pr \<equiv> fetchPersona e (chat_block_id req)"
      and "H \<equiv> join (map formatMessage (butlast (rawMessages req))) nl"
  defines "P0 \<equiv> PersonaQuery (chat_block_id req) pr
                 # (if personaError pr \<noteq> None \<or> personaData pr = None
                    then [ConsoleError (case personaError pr of None \<Rightarrow> ''null'' | Some err \<Rightarrow> err)]
                    else [])
                 @ [ConsoleLog '' personaData '']"
      and "urow \<equiv> \<lambda>cat. \<lparr>row_chat_block_id = chat_block_id req, row_content = c,
                 row_user_id = Some uid, row_type = USER, row_content_type = ''TEXT'',
                 row_category = category cat, row_created_at = now e, row_updated_at = now e\<rparr>"
      and "brow \<equiv> \<lambda>cat resB. \<lparr>row_chat_block_id = chat_block_id req, row_content = res_text resB,
                 row_user_id = None, row_type = BOT, row_content_type = ''TEXT'',
                 row_category = category cat, row_created_at = now e, row_updated_at = now e\<rparr>"
      and "trs \<equiv> \<lambda>mid prs. evaluateMessageAgainstRules (last (rawMessages req)) cid uid mid prs"
  defines "P1 \<equiv> \<lambda>cat. P0 @ [ClassifierCall c (Inr cat), ApiLoggerCall (CHAT_MESSAGE_CREATED c cat) cid uid]"
  defines "P2 \<equiv> \<lambda>cat rs mid. P1 cat @ [RulesQuery cid (Inr rs), InsertCall supabaseAdmin (urow cat) (Inr mid),
                 ConsoleLog ''messageInsert'']"
  defines "P3 \<equiv> \<lambda>cat rs mid prs. P2 cat rs mid
                 @ [EvaluateCall (last (rawMessages req)) cid uid mid prs (trs mid prs)]
                 @ (if 0 < length (trs mid prs)
                    then [ApiLoggerCall (CHAT_MESSAGE_BLOCK_RULE_TRIGGERED c (trs mid prs)) cid uid]
                    else [])
                 @ [Rewrite (newMessages (rawMessages req) (trs mid prs))]"
  obtains
    (noAttributes)
      "personaAttributes e req = None"
      "turn e req st = (Threw TypeError, \<lparr>store = st, trace = P0\<rparr>)"
  | (promptFails) a err where
      "personaAttributes e req = Some a"
      "createPersonaPrompt (personaFragment e) a = Inl err"
      "turn e req st = (Threw err, \<lparr>store = st, trace = P0\<rparr>)"
  | (noMessages) a gp where
      "personaAttributes e req = Some a"
      "createPersonaPrompt (personaFragment e) a = Inr gp"
      "rawMessages req = []"
      "turn e req st = (Threw TypeError, \<lparr>store = st, trace = P0\<rparr>)"
  | (classifierFails) a gp err where
      "personaAttributes e req = Some a"
      "createPersonaPrompt (personaFragment e) a = Inr gp"
      "rawMessages req \<noteq> []"
      "categorizePrompt e c = Inl err"
      "turn e req st = (Threw err, \<lparr>store = st, trace = P0 @ [ClassifierCall c (Inl err)]\<rparr>)"
  | (rulesQueryFails) a gp cat err where
      "personaAttributes e req = Some a"
      "createPersonaPrompt (personaFragment e) a = Inr gp"
      "rawMessages req \<noteq> []"
      "categorizePrompt e c = Inr cat"
      "fetchRules e cid = Inl err"
      "turn e req st = (ReturnedNull,
         \<lparr>store = st, trace = P1 cat @ [RulesQuery cid (Inl err), ConsoleError err]\<rparr>)"
  | (inboundInsertFails) a gp cat rs err where
      "personaAttributes e req = Some a"
      "createPersonaPrompt (personaFragment e) a = Inr gp"
      "rawMessages req \<noteq> []"
      "categorizePrompt e c = Inr cat"
      "fetchRules e cid = Inr rs"
      "insertChatMessage e supabaseAdmin (urow cat) = Inl err"
      "turn e req st = (ReturnedNull,
         \<lparr>store = st, trace = P1 cat @ [RulesQuery cid (Inr rs),
            InsertCall supabaseAdmin (urow cat) (Inl err), ConsoleError err]\<rparr>)"
  | (ruleMalformed) a gp cat rs mid err where
      "personaAttributes e req = Some a"
      "createPersonaPrompt (personaFragment e) a = Inr gp"
      "rawMessages req \<noteq> []"
      "categorizePrompt e c = Inr cat"
      "fetchRules e cid = Inr rs"
      "insertChatMessage e supabaseAdmin (urow cat) = Inr mid"
      "parseRules rs = Inl err"
      "turn e req st = (Threw err, \<lparr>store = st @ [(mid, urow cat)], trace = P2 cat rs mid\<rparr>)"
  | (chainFails) a gp cat rs mid prs err where
      "personaAttributes e req = Some a"
      "createPersonaPrompt (personaFragment e) a = Inr gp"
      "rawMessages req \<noteq> []"
      "categorizePrompt e c = Inr cat"
      "fetchRules e cid = Inr rs"
      "insertChatMessage e supabaseAdmin (urow cat) = Inr mid"
      "parseRules rs = Inr prs"
      "chainCall e (TEMPLATE gp) H c = Inl err"
      "turn e req st = (Threw err, \<lparr>store = st @ [(mid, urow cat)],
         trace = P3 cat rs mid prs @ [ChainCall (TEMPLATE gp) H c (Inl err)]\<rparr>)"
  | (chainFalsy) a gp cat rs mid prs where
      "personaAttributes e req = Some a"
      "createPersonaPrompt (personaFragment e) a = Inr gp"
      "rawMessages req \<noteq> []"
      "categorizePrompt e c = Inr cat"
      "fetchRules e cid = Inr rs"
      "insertChatMessage e supabaseAdmin (urow cat) = Inr mid"
      "parseRules rs = Inr prs"
      "chainCall e (TEMPLATE gp) H c = Inr None"
      "turn e req st = (Json None, \<lparr>store = st @ [(mid, urow cat)],
         trace = P3 cat rs mid prs @ [ChainCall (TEMPLATE gp) H c (Inr None)]\<rparr>)"
  | (outboundInsertFails) a gp cat rs mid prs resB err where
      "personaAttributes e req = Some a"
      "createPersonaPrompt (personaFragment e) a = Inr gp"
      "rawMessages req \<noteq> []"
      "categorizePrompt e c = Inr cat"
      "fetchRules e cid = Inr rs"
      "insertChatMessage e supabaseAdmin (urow cat) = Inr mid"
      "parseRules rs = Inr prs"
      "chainCall e (TEMPLATE gp) H c = Inr (Some resB)"
      "insertChatMessage e supabase (brow cat resB) = Inl err"
      "turn e req st = (ReturnedUndefined, \<lparr>store = st @ [(mid, urow cat)],
         trace = P3 cat rs mid prs @ [ChainCall (TEMPLATE gp) H c (Inr (Some resB)),
            InsertCall supabase (brow cat resB) (Inl err), ConsoleError err]\<rparr>)"
  | (replied) a gp cat rs mid prs resB oid where
      "personaAttributes e req = Some a"
      "createPersonaPrompt (personaFragment e) a = Inr gp"
      "rawMessages req \<noteq> []"
      "categorizePrompt e c = Inr cat"
      "fetchRules e cid = Inr rs"
      "insertChatMessage e supabaseAdmin (urow cat) = Inr mid"
      "parseRules rs = Inr prs"
      "chainCall e (TEMPLATE gp) H c = Inr (Some resB)"
      "insertChatMessage e supabase (brow cat resB) = Inr oid"
      "turn e req st = (Json (Some resB), \<lparr>store = st @ [(mid, urow cat), (oid, brow cat resB)],
         trace = P3 cat rs mid prs @ [ChainCall (TEMPLATE gp) H c (Inr (Some resB)),
            InsertCall supabase (brow cat resB) (Inr oid)]\<rparr>)"
proof -
  note defs = c_def cid_def uid_def pr_def H_def P0_def urow_def brow_def trs_def P1_def P2_def P3_def
    personaAttributes_def run_defs
  show thesis
  proof (cases "personaAttributes e req")
    case None
    then show thesis by (intro noAttributes) (simp_all add: defs)
  next
    case (Some a)
    note pa = this
    show thesis
    proof (cases "createPersonaPrompt (personaFragment e) a")
      case (Inl err)
      with pa show thesis by (intro promptFails[of a err]) (simp_all add: defs)
    next
      case (Inr gp)
      note cp = this
      show thesis
      proof (cases "rawMessages req = []")
        case True
        with pa cp show thesis by (intro noMessages[of a gp]) (simp_all add: defs)
      next
        case False
        note ne = this
        show thesis
        proof (cases "categorizePrompt e c")
          case (Inl err)
          with pa cp ne show thesis by (intro classifierFails[of a gp err]) (simp_all add: defs)
        next
          case (Inr cat)
          note cl = this
          show thesis
          proof (cases "fetchRules e cid")
            case (Inl err)
            with pa cp ne cl show thesis
              by (intro rulesQueryFails[of a gp cat err]) (simp_all add: defs)
          next
            case (Inr rs)
            note fr = this
            show thesis
            proof (cases "insertChatMessage e supabaseAdmin (urow cat)")
              case (Inl err)
              with pa cp ne cl fr show thesis
                by (intro inboundInsertFails[of a gp cat rs err]) (simp_all add: defs)
            next
              case (Inr mid)
              note ins = this
              show thesis
              proof (cases "parseRules rs")
                case (Inl err)
                with pa cp ne cl fr ins show thesis
                  by (intro ruleMalformed[of a gp cat rs mid err]) (simp_all add: defs)
              next
                case (Inr prs)
                note prd = this
                show thesis
                proof (cases "chainCall e (TEMPLATE gp) H c")
                  case (Inl err)
                  with pa cp ne cl fr ins prd show thesis
                    by (intro chainFails[of a gp cat rs mid prs err]) (simp_all add: defs)
                next
                  case (Inr r)
                  note ch = this
                  show thesis
                  proof (cases r)
                    case None
                    with pa cp ne cl fr ins prd ch show thesis
                      by (intro chainFalsy[of a gp cat rs mid prs]) (simp_all add: defs)
                  next
                    case (Some resB)
                    note sm = this
                    show thesis
                    proof (cases "insertChatMessage e supabase (brow cat resB)")
                      case (Inl err)
                      with pa cp ne cl fr ins prd ch sm show thesis
                        by (intro outboundInsertFails[of a gp cat rs mid prs resB err])
                           (simp_all add: defs)
                    next
                      case (Inr oid)
                      with pa cp ne cl fr ins prd ch sm show thesis
                        by (intro replied[of a gp cat rs mid prs resB oid]) (simp_all add: defs)
                    qed
                  qed
                qed
              qed
            qed
          qed
        qed
      qed
    qed
  qed
qed


lemmas view_defs = outcome_def events_def finalStore_def addedRows_def

lemmas proj_defs = stages_def chainInputs_def chainResults_def rewrittenHistories_def
  triggeredLists_def evaluatedIds_def inboundIds_def classifierArgs_def classifierFailures_def
  insertAttempts_def consoleErrors_def

text \<open>
  In every turn the completion call, when it is reached, takes the history and the input
  of the request as they came in.
\<close>

lemma completion_takes_raw_messages:
  "set (chainInputs (events e req st))
     \<subseteq> {(join (map formatMessage (butlast (rawMessages req))) nl,
          content (last (rawMessages req)))}"
  by (cases rule: turn_cases[where e=e and req=req and st=st])
     (simp_all add: view_defs proj_defs)

text \<open>
  A turn whose persona has no attributes, or whose prompt builder refuses the attributes,
  ends in a thrown error before the classifier and the completion chain are called, with
  the store unchanged. With no attributes the error is the TypeError of
  \<open>Object.entries\<close>; the ConfigurationError is the prompt builder's.
\<close>

lemma persona_failure_aborts_before_model_call:
  assumes "personaAttributes e req = None
           \<or> (\<exists>a. personaAttributes e req = Some a
                  \<and> (a = [] \<or> (\<exists>kv \<in> set a. snd kv \<notin> {0, 1, 2})))"
  shows "outcome e req st
           = Threw (if personaAttributes e req = None then TypeError else ConfigurationError)
       \<and> classifierArgs (events e req st) = []
       \<and> chainInputs (events e req st) = []
       \<and> finalStore e req st = st"
  using assms unfolding bad_level
  by (cases rule: turn_cases[where e=e and req=req and st=st])
     (auto simp add: view_defs proj_defs createPersonaPrompt_def split: if_splits)

lemma persona_failure_aborts_before_model_call_example:
  "personaAttributes envNoPersona reqA = None
   \<and> outcome envNoPersona reqA [] = Threw TypeError
   \<and> classifierArgs (events envNoPersona reqA []) = []
   \<and> personaAttributes envBadLevel reqA = Some [(''warmth'', 3)]
   \<and> outcome envBadLevel reqA [] = Threw ConfigurationError
   \<and> chainInputs (events envBadLevel reqA []) = []"
proof -
  have h1: "personaAttributes envNoPersona reqA = None"
    by code_simp
  have h2: "personaAttributes envBadLevel reqA = Some [(''warmth'', 3)]"
    by code_simp
  have b: "\<exists>kv \<in> set [(''warmth'', 3 :: int)]. snd kv \<notin> {0, 1, 2}"
    by simp
  from h1 persona_failure_aborts_before_model_call [of envNoPersona reqA "[]"]
  have r1: "outcome envNoPersona reqA [] = Threw TypeError
            \<and> classifierArgs (events envNoPersona reqA []) = []"
    by simp
  from h2 b persona_failure_aborts_before_model_call [of envBadLevel reqA "[]"]
  have r2: "outcome envBadLevel reqA [] = Threw ConfigurationError
            \<and> chainInputs (events envBadLevel reqA []) = []"
    by simp
  from h1 h2 r1 r2 show ?thesis
    by blast
qed

section \<open>The claims\<close>

subsection \<open>What reaches the completion call\<close>

text \<open>
  Claim C1: in a turn where a block rule triggers, the history and the input passed to
  the completion call are the rewritten copies; in scenario A the model receives
  \<open>my password is [REDACTED]\<close>.

  The handler computes the rewritten copy and does not pass it on. In scenario A the
  rule triggers and the rewritten history holds \<open>my password is [REDACTED]\<close>, while the
  completion call receives the empty history and the input \<open>my password is secret123\<close>.
\<close>

theorem scenarioA_completion_receives_original:
  "triggeredLists (events envA reqA []) = [[redactRule]]
   \<and> rewrittenHistories (events envA reqA [])
       = [[\<lparr>role = ''user'', content = ''my password is [REDACTED]''\<rparr>]]
   \<and> chainInputs (events envA reqA []) = [([], ''my password is secret123'')]"
  by code_simp

text \<open>
  Claim C2: the rewrite replaces all occurrences of a triggered rule's original, in
  every message of the history, the rules in evaluation order.

  \<open>replace\<close> with a string pattern rewrites the first occurrence only. With the blocked
  text once in an earlier message and twice in the last one, the rewrite reaches every
  message and leaves the second occurrence of the last message in place.
\<close>

theorem rewrite_leaves_second_occurrence:
  "rewrittenHistories (events envA reqTwice [])
     = [[\<lparr>role = ''user'', content = ''is [REDACTED] safe?''\<rparr>,
         \<lparr>role = ''assistant'', content = ''no''\<rparr>,
         \<lparr>role = ''user'', content = ''[REDACTED] and again secret123''\<rparr>]]"
  by code_simp

subsection \<open>Failure of the outbound insert\<close>

text \<open>
  Claim C3: if the completion call succeeds and persisting the outbound message fails,
  the reply is still returned to the caller.

  In scenario D the completion call returns \<open>ok\<close>, the insert of the reply fails, and
  the response is not the reply.
\<close>

theorem scenarioD_reply_not_returned:
  "chainResults (events envD reqA []) = [Inr (Some \<lparr>res_text = ''ok''\<rparr>)]
   \<and> insertAttempts (events envD reqA [])
       = [(inboundRowA, Inr 41), (replyRowA, Inl ''insert failed'')]
   \<and> outcome envD reqA [] \<noteq> Json (Some \<lparr>res_text = ''ok''\<rparr>)"
  by code_simp

text \<open>
  Claim C3, amended: if the completion call succeeds and the insert of the outbound
  message fails, the handler logs the error and returns undefined; the reply is not
  returned and no outbound row is stored.
\<close>

theorem outbound_failure_returns_undefined:
  assumes "Inr (Some resB) \<in> set (chainResults (events e req st))"
      and "(row, Inl err) \<in> set (insertAttempts (events e req st))"
      and "row_type row = BOT"
  shows "outcome e req st = ReturnedUndefined
       \<and> outcome e req st \<noteq> Json (Some resB)
       \<and> err \<in> set (consoleErrors (events e req st))
       \<and> filter (\<lambda>ir. row_type (snd ir) = BOT) (addedRows e req st) = []"
  using assms
  by (cases rule: turn_cases[where e=e and req=req and st=st])
     (auto simp add: view_defs proj_defs)

theorem outbound_failure_returns_undefined_witness:
  "Inr (Some \<lparr>res_text = ''ok''\<rparr>) \<in> set (chainResults (events envD reqA []))
   \<and> (replyRowA, Inl ''insert failed'') \<in> set (insertAttempts (events envD reqA []))
   \<and> row_type replyRowA = BOT
   \<and> outcome envD reqA [] = ReturnedUndefined
   \<and> ''insert failed'' \<in> set (consoleErrors (events envD reqA []))"
proof -
  have h1: "Inr (Some \<lparr>res_text = ''ok''\<rparr>) \<in> set (chainResults (events envD reqA []))"
    by code_simp
  have h2: "(replyRowA, Inl ''insert failed'') \<in> set (insertAttempts (events envD reqA []))"
    by code_simp
  have h3: "row_type replyRowA = BOT"
    by (simp add: replyRowA_def)
  from outbound_failure_returns_undefined [OF h1 h2 h3] h1 h2 h3 show ?thesis
    by blast
qed

subsection \<open>The persisted inbound message\<close>

text \<open>
  Claim C4: the inbound message content persisted to the store is the original content
  as received, never altered by rule substitution, also when rules trigger on it.

  A turn only appends rows to the store, and every USER row it appends carries the
  content of the last message of the request.
\<close>

theorem inbound_row_keeps_original_content:
  "finalStore e req st = st @ addedRows e req st
   \<and> (\<forall>(i, row) \<in> set (addedRows e req st).
         row_type row = USER \<longrightarrow> row_content row = content (last (rawMessages req)))"
  by (cases rule: turn_cases[where e=e and req=req and st=st])
     (simp_all add: view_defs)

theorem inbound_row_keeps_original_content_witness:
  "(41, inboundRowA) \<in> set (addedRows envA reqA [])
   \<and> row_type inboundRowA = USER
   \<and> row_content inboundRowA = content (last (rawMessages reqA))
   \<and> row_content inboundRowA = ''my password is secret123''"
proof -
  have h1: "(41, inboundRowA) \<in> set (addedRows envA reqA [])"
    by code_simp
  have h2: "row_type inboundRowA = USER"
    by (simp add: inboundRowA_def)
  have h3: "row_content inboundRowA = ''my password is secret123''"
    by (simp add: inboundRowA_def)
  from inbound_row_keeps_original_content [of envA reqA "[]"] h1 h2
  have "row_content inboundRowA = content (last (rawMessages reqA))"
    by blast
  with h1 h2 h3 show ?thesis
    by blast
qed

subsection \<open>Idempotence of the rewrite\<close>

text \<open>
  Claim C5: the rewrite is idempotent for every history and every sequence of triggered
  rules.

  A rule whose substitution contains its original grows the text at each pass.
\<close>

theorem rewrite_twice_differs:
  "newMessages (newMessages [\<lparr>role = ''user'', content = ''my secret''\<rparr>] [growingRule])
       [growingRule]
   \<noteq> newMessages [\<lparr>role = ''user'', content = ''my secret''\<rparr>] [growingRule]"
  by code_simp

text \<open>
  Claim C5, amended: when no message of the rewritten history contains the original of
  any triggered rule, rewriting it again with the same rules yields the same history.
\<close>

theorem rewrite_again_is_noop_without_originals:
  assumes "\<forall>m \<in> set (newMessages ms trs). \<forall>r \<in> set trs.
             \<not> str_includes (content m) (original r)"
  shows "newMessages (newMessages ms trs) trs = newMessages ms trs"
  using assms by (rule newMessages_absent)

theorem rewrite_again_is_noop_without_originals_witness:
  "newMessages (rawMessages reqA) [redactRule]
     = [\<lparr>role = ''user'', content = ''my password is [REDACTED]''\<rparr>]
   \<and> \<not> str_includes ''my password is [REDACTED]'' (original redactRule)
   \<and> newMessages (newMessages (rawMessages reqA) [redactRule]) [redactRule]
       = newMessages (rawMessages reqA) [redactRule]"
proof -
  have h1: "newMessages (rawMessages reqA) [redactRule]
              = [\<lparr>role = ''user'', content = ''my password is [REDACTED]''\<rparr>]"
    by code_simp
  have h2: "\<not> str_includes ''my password is [REDACTED]'' (original redactRule)"
    by code_simp
  from h1 h2
  have h: "\<forall>m \<in> set (newMessages (rawMessages reqA) [redactRule]). \<forall>r \<in> set [redactRule].
             \<not> str_includes (content m) (original r)"
    by simp
  from rewrite_again_is_noop_without_originals [OF h] h1 h2 show ?thesis
    by blast
qed


subsection \<open>The order of the steps\<close>

text \<open>
  Claim C6: the pipeline runs Received, Classified, InboundPersisted, RulesFetched,
  RulesEvaluated, HistoryRewritten, CompletionInvoked, OutboundPersisted, Done in this
  order; inbound persistence happens before rule fetching and before rule evaluation.

  In scenario A every step succeeds, and the rules are fetched before the inbound message
  is persisted: the steps of the run are not in the order of the spec.
\<close>

theorem scenarioA_rules_fetched_before_inbound_persisted:
  "stages (events envA reqA [])
     = [Classified, RulesFetched, InboundPersisted, RulesEvaluated, HistoryRewritten,
        CompletionInvoked, OutboundPersisted]
   \<and> \<not> prefix (stages (events envA reqA [])) specOrder"
  by code_simp

text \<open>
  Claim C6, amended: the steps run in the fixed order Received, Classified, RulesFetched,
  InboundPersisted, RulesEvaluated, HistoryRewritten, CompletionInvoked,
  OutboundPersisted, Done, with no backward transition: the states a turn reaches are an
  initial part of this sequence. Inbound persistence happens after rule fetching and
  before rule evaluation, and the evaluation receives the id of the persisted inbound
  message.
\<close>

theorem steps_run_in_code_order:
  "prefix (stages (events e req st)) codeOrder
   \<and> prefix (evaluatedIds (events e req st)) (inboundIds (events e req st))"
  by (cases rule: turn_cases[where e=e and req=req and st=st])
     (simp_all add: view_defs proj_defs codeOrder_def)

theorem steps_run_in_code_order_witness:
  "prefix (stages (events envA reqA [])) codeOrder
   \<and> length (stages (events envA reqA [])) = 7
   \<and> prefix (evaluatedIds (events envA reqA [])) (inboundIds (events envA reqA []))
   \<and> evaluatedIds (events envA reqA []) = [41]"
proof -
  have h1: "length (stages (events envA reqA [])) = 7"
    by code_simp
  have h2: "evaluatedIds (events envA reqA []) = [41]"
    by code_simp
  from steps_run_in_code_order [of envA reqA "[]"] h1 h2 show ?thesis
    by blast
qed

subsection \<open>Failure of the classifier\<close>

text \<open>
  Claim C7: if the classifier call fails, the turn aborts with no reply, and neither the
  inbound nor any outbound message is persisted; the store is unchanged.

  The rejection of \<open>categorizePrompt\<close> is not caught: the handler throws it, before any
  insert and before the completion call.
\<close>

theorem classifier_failure_aborts_turn:
  assumes "err \<in> set (classifierFailures (events e req st))"
  shows "outcome e req st = Threw err
       \<and> finalStore e req st = st
       \<and> insertAttempts (events e req st) = []
       \<and> chainResults (events e req st) = []"
  using assms
  by (cases rule: turn_cases[where e=e and req=req and st=st])
     (simp_all add: view_defs proj_defs)

theorem classifier_failure_aborts_turn_witness:
  "Rejected ''classifier down'' \<in> set (classifierFailures (events envC reqA [(1, replyRowA)]))
   \<and> outcome envC reqA [(1, replyRowA)] = Threw (Rejected ''classifier down'')
   \<and> finalStore envC reqA [(1, replyRowA)] = [(1, replyRowA)]
   \<and> insertAttempts (events envC reqA [(1, replyRowA)]) = []"
proof -
  have h: "Rejected ''classifier down''
             \<in> set (classifierFailures (events envC reqA [(1, replyRowA)]))"
    by code_simp
  from classifier_failure_aborts_turn [OF h] h show ?thesis
    by blast
qed

subsection \<open>A bad or missing persona\<close>

text \<open>
  Claim C8: a bad or missing persona yields a ConfigurationError that is fatal for the
  turn: it aborts before any model call and is surfaced to the caller as a failure
  response.

  For a missing persona the handler tests \<open>personaError || !personaData\<close>, logs the
  error and goes on, where the failed rule query and the failed insert log and return.
  With no row for the conversation the error is logged, \<open>Object.entries\<close> then throws a
  TypeError, and the handler ends in that uncaught error: not in a ConfigurationError,
  and not in a response of its own.
\<close>

theorem missing_persona_is_logged_then_crashes:
  "personaData (fetchPersona envNoPersona (chat_block_id reqA)) = None
   \<and> personaAttributes envNoPersona reqA = None
   \<and> events envNoPersona reqA []
       = [PersonaQuery ''b1'' \<lparr>personaData = None, personaError = Some ''no rows''\<rparr>,
          ConsoleError ''no rows'', ConsoleLog '' personaData '']
   \<and> outcome envNoPersona reqA [] = Threw TypeError
   \<and> outcome envNoPersona reqA [] \<noteq> Threw ConfigurationError
   \<and> outcome envNoPersona reqA [] \<noteq> ReturnedNull"
  by code_simp

subsection \<open>An empty rule set\<close>

text \<open>
  Claim C9: when the rule set fetched for the company is empty, the sequence of
  triggered rules is empty and the rewrite leaves every message of the history identical
  to the input.
\<close>

theorem no_rules_leaves_history_unchanged:
  assumes "fetchRules e (company_id req) = Inr []"
  shows "set (triggeredLists (events e req st)) \<subseteq> {[]}
       \<and> set (rewrittenHistories (events e req st)) \<subseteq> {rawMessages req}"
  using assms
  by (cases rule: turn_cases[where e=e and req=req and st=st])
     (auto simp add: view_defs proj_defs evaluate_no_rules newMessages_no_rules)

theorem no_rules_leaves_history_unchanged_witness:
  "fetchRules envNoRules (company_id reqA) = Inr []
   \<and> triggeredLists (events envNoRules reqA []) = [[]]
   \<and> rewrittenHistories (events envNoRules reqA []) = [rawMessages reqA]"
proof -
  have h: "fetchRules envNoRules (company_id reqA) = Inr []"
    by code_simp
  have l1: "length (triggeredLists (events envNoRules reqA [])) = 1"
    by code_simp
  have l2: "length (rewrittenHistories (events envNoRules reqA [])) = 1"
    by code_simp
  from l1 obtain t where t: "triggeredLists (events envNoRules reqA []) = [t]"
    by (auto simp add: length_Suc_conv)
  from l2 obtain r where r: "rewrittenHistories (events envNoRules reqA []) = [r]"
    by (auto simp add: length_Suc_conv)
  from no_rules_leaves_history_unchanged [OF h, of "[]"] t r h show ?thesis
    by simp
qed

subsection \<open>The category of the outbound message\<close>

text \<open>
  Claim C10: the category of the persisted outbound message is the category computed
  from the inbound user message; the reply text is never classified.

  Every BOT row the handler inserts carries the category that the classifier returned for
  the content of the last message of the request, and the classifier is called at most
  once, on that content.
\<close>

theorem outbound_category_is_inbound_category:
  "(\<forall>(row, r) \<in> set (insertAttempts (events e req st)). row_type row = BOT \<longrightarrow>
      (\<exists>cat. categorizePrompt e (content (last (rawMessages req))) = Inr cat
             \<and> row_category row = category cat))
   \<and> set (classifierArgs (events e req st)) \<subseteq> {content (last (rawMessages req))}
   \<and> length (classifierArgs (events e req st)) \<le> 1"
  by (cases rule: turn_cases[where e=e and req=req and st=st])
     (simp_all add: view_defs proj_defs)

theorem outbound_category_is_inbound_category_witness:
  "(replyRowA, Inr 42) \<in> set (insertAttempts (events envA reqA []))
   \<and> row_type replyRowA = BOT
   \<and> map_sum id category (categorizePrompt envA (content (last (rawMessages reqA))))
       = Inr (row_category replyRowA)
   \<and> classifierArgs (events envA reqA []) = [''my password is secret123'']"
proof -
  have h1: "(replyRowA, Inr 42) \<in> set (insertAttempts (events envA reqA []))"
    by code_simp
  have h2: "row_type replyRowA = BOT"
    by (simp add: replyRowA_def)
  have h3: "classifierArgs (events envA reqA []) = [''my password is secret123'']"
    by code_simp
  from outbound_category_is_inbound_category [of envA reqA "[]"] h1 h2
  have "\<exists>cat. categorizePrompt envA (content (last (rawMessages reqA))) = Inr cat
             \<and> row_category replyRowA = category cat"
    by blast
  then have "map_sum id category (categorizePrompt envA (content (last (rawMessages reqA))))
               = Inr (row_category replyRowA)"
    by auto
  with h1 h2 h3 show ?thesis
    by blast
qed


end
